theory Spec2Isabelle
  imports Complex_Main "HOL-Library.Word"
begin

section \<open>Doubles, as far as the header compares them\<close>

text \<open>
  The header meta_numerics.hh stores doubles and compares them; it performs no double
  arithmetic of its own. A double is therefore modelled by its value: a finite double by
  the real number it denotes (the two zeros have the same value and compare equal), the two
  infinities, and NaN. The comparisons are those of IEEE 754, which are exact: every
  comparison with NaN is false.
\<close>

datatype double = NaN | NegInf | Finite real | PosInf

fun dless :: "double \<Rightarrow> double \<Rightarrow> bool" where
  "dless NaN b = False"
| "dless a NaN = False"
| "dless NegInf NegInf = False"
| "dless NegInf b = True"
| "dless (Finite a) (Finite b) = (a < b)"
| "dless (Finite a) PosInf = True"
| "dless (Finite a) NegInf = False"
| "dless PosInf b = False"

fun dgreater_eq :: "double \<Rightarrow> double \<Rightarrow> bool" where
  "dgreater_eq NaN b = False"
| "dgreater_eq a NaN = False"
| "dgreater_eq a b = (\<not> dless a b)"

section \<open>Constants of the header\<close>

text \<open>\<^verbatim>\<open>constexpr int SeriesMax = 250;\<close>\<close>

definition SeriesMax :: int where
  "SeriesMax = 250"

text \<open>\<^verbatim>\<open>constexpr double MaxAccuracy = std::pow(2.0, -49);\<close> The power of two is exact.\<close>

definition MaxAccuracy :: double where
  "MaxAccuracy = Finite (1 / 2 ^ 49)"

section \<open>Errors\<close>

text \<open>
  \<open>Invalid_accuracy v\<close> is the \<^verbatim>\<open>std::runtime_error\<close> thrown by
  \<^verbatim>\<open>OdeStepper::set_accuracy\<close>, whose message carries the offending value.
  \<open>Domain_error\<close> and \<open>Convergence_failure\<close> are the two error kinds of the
  specification (section 7).
\<close>

datatype error = Invalid_accuracy double | Domain_error | Convergence_failure

section \<open>SolutionPair\<close>

text \<open>
  \<^verbatim>\<open>class SolutionPair { private: double j, jPrime, y, yPrime; public: ... };\<close>
\<close>

record SolutionPair =
  j :: double
  jPrime :: double
  y :: double
  yPrime :: double

text \<open>
  The four-argument constructor. (The default constructor leaves the fields unset and is
  not modelled.)
\<close>

definition SolutionPair_ctor :: "double \<Rightarrow> double \<Rightarrow> double \<Rightarrow> double \<Rightarrow> SolutionPair" where
  "SolutionPair_ctor j0 jPrime0 y0 yPrime0 =
     \<lparr>j = j0, jPrime = jPrime0, y = y0, yPrime = yPrime0\<rparr>"

text \<open>
  The public member functions. Each name is overloaded in the header: without an argument
  it reads the field, with a \<^verbatim>\<open>double\<close> argument it assigns the field.
  A call is modelled on the object it is invoked on and returns the value returned
  (\<open>None\<close> for \<^verbatim>\<open>void\<close>) together with the object afterwards.
\<close>

datatype member_call =
    FirstSolutionValue_get
  | FirstSolutionValue_set double
  | FirstSolutionDerivative_get
  | FirstSolutionDerivative_set double
  | SecondSolutionValue_get
  | SecondSolutionValue_set double
  | SecondSolutionDerivative_get
  | SecondSolutionDerivative_set double

fun invoke :: "member_call \<Rightarrow> SolutionPair \<Rightarrow> double option \<times> SolutionPair" where
  "invoke FirstSolutionValue_get p = (Some (j p), p)"
| "invoke (FirstSolutionValue_set v) p = (None, p\<lparr>j := v\<rparr>)"
| "invoke FirstSolutionDerivative_get p = (Some (jPrime p), p)"
| "invoke (FirstSolutionDerivative_set v) p = (None, p\<lparr>jPrime := v\<rparr>)"
| "invoke SecondSolutionValue_get p = (Some (y p), p)"
| "invoke (SecondSolutionValue_set v) p = (None, p\<lparr>y := v\<rparr>)"
| "invoke SecondSolutionDerivative_get p = (Some (yPrime p), p)"
| "invoke (SecondSolutionDerivative_set v) p = (None, p\<lparr>yPrime := v\<rparr>)"

section \<open>OdeStepper\<close>

text \<open>
  The data members of \<^verbatim>\<open>class OdeStepper\<close>: the public \<^verbatim>\<open>X\<close>,
  \<^verbatim>\<open>Y\<close>, \<^verbatim>\<open>DeltaX\<close>, \<^verbatim>\<open>accuracy\<close> and
  \<^verbatim>\<open>RightHandSide\<close>, and the protected \<^verbatim>\<open>int count\<close>.
\<close>

record OdeStepper =
  X :: double
  Y :: double
  DeltaX :: double
  accuracy :: double
  RightHandSide :: "double \<Rightarrow> double \<Rightarrow> double"
  count :: "32 word"

definition EvaluationCount :: "OdeStepper \<Rightarrow> 32 word" where
  "EvaluationCount s = count s"

text \<open>
  \<^verbatim>\<open>if ((value < MaxAccuracy) || (value >= 1.0)) throw std::runtime_error(...);
  accuracy = value;\<close>
\<close>

definition set_accuracy :: "double \<Rightarrow> OdeStepper \<Rightarrow> error + OdeStepper" where
  "set_accuracy v s =
     (if dless v MaxAccuracy \<or> dgreater_eq v (Finite 1) then Inl (Invalid_accuracy v)
      else Inr (s\<lparr>accuracy := v\<rparr>))"

text \<open>
  \<^verbatim>\<open>count++; return (RightHandSide(x, y));\<close> Incrementing an \<^verbatim>\<open>int\<close>
  that holds \<^verbatim>\<open>INT_MAX\<close> is undefined in C++; the model returns \<open>None\<close> there.
\<close>

definition Evaluate :: "double \<Rightarrow> double \<Rightarrow> OdeStepper \<Rightarrow> (double \<times> OdeStepper) option" where
  "Evaluate a b s =
     (if sint (count s) = 2 ^ 31 - 1 then None
      else Some (RightHandSide s a b, s\<lparr>count := count s + 1\<rparr>))"

section \<open>The entry points\<close>

text \<open>
  Modelled from the spec: the bodies of \<^verbatim>\<open>CoulombF\<close> and \<^verbatim>\<open>CoulombG\<close>
  are in meta_numerics.cc, which is missing; the header has their declarations
  (\<^verbatim>\<open>double CoulombF (int L, double eta, double rho)\<close>) and documents an
  exception when \<^verbatim>\<open>L\<close> or \<^verbatim>\<open>rho\<close> is negative. Section 4.7 of the
  specification: the entry point validates \<open>L \<ge> 0\<close> and \<open>rho \<ge> 0\<close>, raising a domain
  error otherwise, and then chooses among the numerical regimes. The validation is
  modelled as the two tests \<open>L < 0\<close> and \<open>rho < 0\<close> of section 6 and of the header's
  documentation. The regimes are the parameter \<open>regimes\<close>; \<^verbatim>\<open>int\<close> is a 32-bit
  word read as signed.
\<close>

definition CoulombF ::
  "(32 word \<Rightarrow> double \<Rightarrow> double \<Rightarrow> error + double) \<Rightarrow> 32 word \<Rightarrow> double \<Rightarrow> double \<Rightarrow> error + double"
where
  "CoulombF regimes L eta rho =
     (if sint L < 0 then Inl Domain_error
      else if dless rho (Finite 0) then Inl Domain_error
      else regimes L eta rho)"

text \<open>
  Modelled from the spec: \<^verbatim>\<open>CoulombG\<close> validates its arguments as
  \<^verbatim>\<open>CoulombF\<close> does (sections 4.7 and 6); its body is missing as well.
\<close>

definition CoulombG ::
  "(32 word \<Rightarrow> double \<Rightarrow> double \<Rightarrow> error + double) \<Rightarrow> 32 word \<Rightarrow> double \<Rightarrow> double \<Rightarrow> error + double"
where
  "CoulombG regimes L eta rho =
     (if sint L < 0 then Inl Domain_error
      else if dless rho (Finite 0) then Inl Domain_error
      else regimes L eta rho)"

section \<open>SolutionPair: what the member functions change\<close>

text \<open>
  C8, as stated, fails: the public assigning overload \<^verbatim>\<open>FirstSolutionValue(double)\<close>
  changes the stored first value of an existing pair. Here the pair built from
  1, 2, 3, 4 holds 5 as its first value after the call.
\<close>

theorem SolutionPair_setter_changes_field:
  "snd (invoke (FirstSolutionValue_set (Finite 5))
          (SolutionPair_ctor (Finite 1) (Finite 2) (Finite 3) (Finite 4)))
     \<noteq> SolutionPair_ctor (Finite 1) (Finite 2) (Finite 3) (Finite 4)
   \<and> j (snd (invoke (FirstSolutionValue_set (Finite 5))
          (SolutionPair_ctor (Finite 1) (Finite 2) (Finite 3) (Finite 4)))) = Finite 5
   \<and> j (SolutionPair_ctor (Finite 1) (Finite 2) (Finite 3) (Finite 4)) = Finite 1"
  by (simp add: SolutionPair_ctor_def)

text \<open>
  C8, amended: a SolutionPair holds the four doubles given to its constructor. The four
  reading member functions return the stored field and leave all four fields as they
  are. Each of the four assigning member functions stores its argument in its own field
  and leaves the other three fields as they are.
\<close>

theorem SolutionPair_frame:
  "j (SolutionPair_ctor a b c d) = a \<and> jPrime (SolutionPair_ctor a b c d) = b
   \<and> y (SolutionPair_ctor a b c d) = c \<and> yPrime (SolutionPair_ctor a b c d) = d
   \<and> invoke FirstSolutionValue_get p = (Some (j p), p)
   \<and> invoke FirstSolutionDerivative_get p = (Some (jPrime p), p)
   \<and> invoke SecondSolutionValue_get p = (Some (y p), p)
   \<and> invoke SecondSolutionDerivative_get p = (Some (yPrime p), p)
   \<and> (let q = snd (invoke (FirstSolutionValue_set v) p)
      in j q = v \<and> jPrime q = jPrime p \<and> y q = y p \<and> yPrime q = yPrime p)
   \<and> (let q = snd (invoke (FirstSolutionDerivative_set v) p)
      in j q = j p \<and> jPrime q = v \<and> y q = y p \<and> yPrime q = yPrime p)
   \<and> (let q = snd (invoke (SecondSolutionValue_set v) p)
      in j q = j p \<and> jPrime q = jPrime p \<and> y q = v \<and> yPrime q = yPrime p)
   \<and> (let q = snd (invoke (SecondSolutionDerivative_set v) p)
      in j q = j p \<and> jPrime q = jPrime p \<and> y q = y p \<and> yPrime q = v)"
  by (simp add: SolutionPair_ctor_def)

section \<open>set\_accuracy: the accepted values\<close>

text \<open>
  C7, as stated, fails: the value \<open>1 / 2 ^ 49\<close> of \<^verbatim>\<open>MaxAccuracy\<close> is not
  inside the open interval from \<open>1 / 2 ^ 49\<close> to 1, yet \<^verbatim>\<open>set_accuracy\<close> accepts it and stores it.
\<close>

theorem set_accuracy_accepts_MaxAccuracy:
  "\<not> (dless MaxAccuracy (Finite (1 / 2 ^ 49)) \<and> dless (Finite (1 / 2 ^ 49)) (Finite 1))
   \<and> set_accuracy (Finite (1 / 2 ^ 49))
        \<lparr>X = Finite 0, Y = Finite 0, DeltaX = Finite (1 / 4), accuracy = Finite (1 / 2),
         RightHandSide = (\<lambda>a b. b), count = 0\<rparr>
     = Inr \<lparr>X = Finite 0, Y = Finite 0, DeltaX = Finite (1 / 4), accuracy = Finite (1 / 2 ^ 49),
         RightHandSide = (\<lambda>a b. b), count = 0\<rparr>"
  by (simp add: set_accuracy_def MaxAccuracy_def)

text \<open>
  C7, amended: for a value that is not NaN, \<^verbatim>\<open>set_accuracy\<close> raises its error
  exactly when the value is below \<open>1 / 2 ^ 49\<close> or at least 1, that is, outside the
  half-open interval that contains \<open>1 / 2 ^ 49\<close> and excludes 1; for every value
  inside that interval the accuracy field is set to the value, the other fields keep
  their values, and no error is raised.
\<close>

theorem set_accuracy_half_open:
  "set_accuracy (Finite r) s =
     (if 1 / 2 ^ 49 \<le> r \<and> r < 1 then Inr (s\<lparr>accuracy := Finite r\<rparr>)
      else Inl (Invalid_accuracy (Finite r)))
   \<and> set_accuracy NegInf s = Inl (Invalid_accuracy NegInf)
   \<and> set_accuracy PosInf s = Inl (Invalid_accuracy PosInf)"
  by (auto simp add: set_accuracy_def MaxAccuracy_def)

section \<open>The entry points reject negative arguments\<close>

text \<open>
  C2: for every \<open>eta\<close> and every \<open>L\<close>, \<open>rho\<close> with \<open>L < 0\<close> or \<open>rho < 0\<close>, both
  \<^verbatim>\<open>CoulombF\<close> and \<^verbatim>\<open>CoulombG\<close> fail with a domain error and return no value,
  whatever the numerical regimes would compute.
\<close>

theorem Coulomb_domain_error:
  assumes "sint L < 0 \<or> dless rho (Finite 0)"
  shows "CoulombF regimes L eta rho = Inl Domain_error
    \<and> CoulombG regimes L eta rho = Inl Domain_error
    \<and> (\<nexists>v. CoulombF regimes L eta rho = Inr v) \<and> (\<nexists>v. CoulombG regimes L eta rho = Inr v)"
  using assms by (auto simp add: CoulombF_def CoulombG_def)

text \<open>
  The two calls named by the specification, \<^verbatim>\<open>CoulombF(-1, 0.0, 1.0)\<close> and
  \<^verbatim>\<open>CoulombF(0, 0.0, -1.0)\<close>, with regimes that would return a value.
\<close>

theorem Coulomb_domain_error_witness:
  "sint (- 1 :: 32 word) < 0
   \<and> CoulombF (\<lambda>L eta rho. Inr rho) (- 1) (Finite 0) (Finite 1) = Inl Domain_error
   \<and> dless (Finite (- 1)) (Finite 0)
   \<and> CoulombF (\<lambda>L eta rho. Inr rho) 0 (Finite 0) (Finite (- 1)) = Inl Domain_error
   \<and> CoulombG (\<lambda>L eta rho. Inr rho) 0 (Finite 0) (Finite (- 1)) = Inl Domain_error"
proof -
  have neg: "sint (- 1 :: 32 word) < 0"
    by simp
  have below: "dless (Finite (- 1)) (Finite 0)"
    by simp
  from neg have "sint (- 1 :: 32 word) < 0 \<or> dless (Finite 1) (Finite 0)" ..
  note first = Coulomb_domain_error [OF this, of "\<lambda>L eta rho. Inr rho" "Finite 0"]
  from below have "sint (0 :: 32 word) < 0 \<or> dless (Finite (- 1)) (Finite 0)" ..
  note second = Coulomb_domain_error [OF this, of "\<lambda>L eta rho. Inr rho" "Finite 0"]
  from neg below first second show ?thesis
    by blast
qed

section \<open>Evaluate and the evaluation count\<close>

lemma sint_count_incr:
  fixes c :: "32 word"
  assumes "sint c \<noteq> 2 ^ 31 - 1"
  shows "sint (c + 1) = sint c + 1"
proof -
  have lo: "- (2 ^ 31) \<le> sint c" using sint_ge [of c] by simp
  have hi: "sint c < 2 ^ 31" using sint_lt [of c] by simp
  from assms hi have "sint c + 1 < 2 ^ 31" by simp
  moreover from lo have "- (2 ^ 31) \<le> sint c + 1" by simp
  ultimately have "signed_take_bit 31 (sint c + 1) = sint c + 1"
    by (simp add: signed_take_bit_int_eq_self)
  then show ?thesis by (simp add: sint_word_add)
qed

text \<open>
  One call of \<^verbatim>\<open>Evaluate\<close> that returns has applied the right-hand side once, to
  the arguments given, has raised the evaluation count by one, and has changed no other
  member.
\<close>

lemma Evaluate_count:
  assumes "Evaluate a b s = Some (r, s')"
  shows "r = RightHandSide s a b \<and> sint (EvaluationCount s') = sint (EvaluationCount s) + 1
     \<and> s' = s\<lparr>count := count s + 1\<rparr>"
  using assms
  by (auto simp add: Evaluate_def EvaluationCount_def sint_count_incr split: if_splits)

end
